theory Spec2Isabelle
  imports Complex_Main
begin

section \<open>Numbers and the zoom constants\<close>

text \<open>
  A shallow embedding of \<^verbatim>\<open>src/App.tsx\<close>. A JavaScript \<^verbatim>\<open>number\<close> is modelled as a
  \<^typ>\<open>real\<close>: the arithmetic is exact, the rounding of IEEE doubles is not modelled.
  Array indices are integers, as \<^verbatim>\<open>data.cellid.map((_, i) => ...)\<close> produces them.
\<close>

definition minZoom :: real where
  "minZoom = 0.5"

definition maxZoom :: real where
  "maxZoom = 100"

record domain =
  minX :: real
  maxX :: real
  minY :: real
  maxY :: real

section \<open>The semantic scale function\<close>

text \<open>
  \<^verbatim>\<open>transformFunc\<close> closes over the React state \<^verbatim>\<open>k\<close>; here the zoom factor is its
  first argument.
\<close>

definition transformFunc :: "real \<Rightarrow> real \<Rightarrow> real" where
  "transformFunc zk dimension =
     (if zk < maxZoom * 0.75 then dimension / zk else dimension / (maxZoom * 0.75))"

definition unit :: "real \<Rightarrow> domain \<Rightarrow> real" where
  "unit zk dmn = transformFunc zk ((maxY dmn - minY dmn) / 250)"

text \<open>The names the specification gives to the two quantities inside \<^const>\<open>unit\<close>.\<close>

definition capK :: real where
  "capK = maxZoom * 0.75"

definition baseUnit :: "domain \<Rightarrow> real" where
  "baseUnit dmn = (maxY dmn - minY dmn) / 250"

section \<open>The dataset and the module-level constants\<close>

text \<open>
  \<^verbatim>\<open>data\<close> is the imported JSON: parallel arrays indexed by point, and the list of
  category labels. The count and percent arrays feed the legend panel only and are left
  out.
\<close>

record dataset =
  cellid :: "string list"
  xumap :: "real list"
  yumap :: "real list"
  celltype :: "string list"
  celltypes :: "string list"

text \<open>
  Reading \<^verbatim>\<open>xs[i]\<close>: an index outside the array gives \<^verbatim>\<open>undefined\<close>, here \<open>None\<close>.
\<close>

definition js_index :: "'a list \<Rightarrow> int \<Rightarrow> 'a option" where
  "js_index xs i = (if 0 \<le> i \<and> i < int (length xs) then Some (xs ! nat i) else None)"

text \<open>
  The values the domain computation can produce: a number, \<^verbatim>\<open>NaN\<close>, or
  \<^verbatim>\<open>undefined\<close> when element 0 of an empty array is read.
\<close>

datatype jsval = Undefined | NaN | Num real

datatype js_error = TypeError

definition to_jsval :: "real option \<Rightarrow> jsval" where
  "to_jsval v = (case v of None \<Rightarrow> Undefined | Some a \<Rightarrow> Num a)"

text \<open>
  \<^verbatim>\<open>Math.min\<close> and \<^verbatim>\<open>Math.max\<close> convert their arguments to numbers;
  \<^verbatim>\<open>undefined\<close> converts to \<^verbatim>\<open>NaN\<close>, and \<^verbatim>\<open>NaN\<close> in any argument gives \<^verbatim>\<open>NaN\<close>.
\<close>

fun Math_min :: "jsval \<Rightarrow> jsval \<Rightarrow> jsval" where
  "Math_min (Num a) (Num b) = Num (min a b)"
| "Math_min _ _ = NaN"

fun Math_max :: "jsval \<Rightarrow> jsval \<Rightarrow> jsval" where
  "Math_max (Num a) (Num b) = Num (max a b)"
| "Math_max _ _ = NaN"

text \<open>
  \<^verbatim>\<open>Array.prototype.reduce\<close>: with an initial value the fold starts from it, and an
  empty array gives it back unchanged; without one the fold starts from the first
  element, and an empty array raises \<^verbatim>\<open>TypeError\<close>.
\<close>

fun reduce :: "('a \<Rightarrow> 'a \<Rightarrow> 'a) \<Rightarrow> 'a option \<Rightarrow> 'a list \<Rightarrow> js_error + 'a" where
  "reduce f (Some init) xs = Inr (foldl f init xs)"
| "reduce f None [] = Inl TypeError"
| "reduce f None (x # xs) = Inr (foldl f x xs)"

text \<open>
  Lines 7 to 12: the four bounds, each a \<^verbatim>\<open>reduce\<close> whose initial value is element 0
  of the array it folds.
\<close>

definition minX_of :: "dataset \<Rightarrow> js_error + jsval" where
  "minX_of d =
     reduce (\<lambda>mn cur. Math_min mn cur) (Some (to_jsval (js_index (xumap d) 0)))
       (map Num (xumap d))"

definition maxX_of :: "dataset \<Rightarrow> js_error + jsval" where
  "maxX_of d =
     reduce (\<lambda>mx cur. Math_max mx cur) (Some (to_jsval (js_index (xumap d) 0)))
       (map Num (xumap d))"

definition minY_of :: "dataset \<Rightarrow> js_error + jsval" where
  "minY_of d =
     reduce (\<lambda>mn cur. Math_min mn cur) (Some (to_jsval (js_index (yumap d) 0)))
       (map Num (yumap d))"

definition maxY_of :: "dataset \<Rightarrow> js_error + jsval" where
  "maxY_of d =
     reduce (\<lambda>mx cur. Math_max mx cur) (Some (to_jsval (js_index (yumap d) 0)))
       (map Num (yumap d))"

text \<open>
  Lines 15 to 17: the colour map. \<^verbatim>\<open>faker.color.rgb()\<close> is an external random
  generator; \<open>rgb n\<close> stands for the colour its call number \<open>n\<close> returns. The loop
  visits the labels in order, and \<^verbatim>\<open>Map.set\<close> overwrites an earlier entry of the
  same label.
\<close>

fun cellColors_loop ::
  "(nat \<Rightarrow> string) \<Rightarrow> nat \<Rightarrow> (string \<rightharpoonup> string) \<Rightarrow> string list \<Rightarrow> (string \<rightharpoonup> string)" where
  "cellColors_loop rgb n m [] = m"
| "cellColors_loop rgb n m (ct # cts) =
     (if ct \<noteq> ''Total'' then cellColors_loop rgb (Suc n) (m(ct \<mapsto> rgb n)) cts
      else cellColors_loop rgb n m cts)"

definition cellColors :: "(nat \<Rightarrow> string) \<Rightarrow> dataset \<Rightarrow> (string \<rightharpoonup> string)" where
  "cellColors rgb d = cellColors_loop rgb 0 Map.empty (celltypes d)"

section \<open>The viewport controller\<close>

text \<open>
  Modelled from the spec: the \<^verbatim>\<open>d3-zoom\<close> library is a dependency and not part of the
  sources. A transform is a scale \<open>k\<close> and a translation \<open>(x, y)\<close>; \<^verbatim>\<open>zoomIdentity\<close> is
  scale 1 with no translation, and \<^verbatim>\<open>transform.scale(s)\<close> multiplies the scale.
\<close>

record Transform =
  t_k :: real
  t_x :: real
  t_y :: real

definition zoomIdentity :: Transform where
  "zoomIdentity = \<lparr>t_k = 1, t_x = 0, t_y = 0\<rparr>"

definition transform_scale :: "Transform \<Rightarrow> real \<Rightarrow> Transform" where
  "transform_scale t s = t\<lparr>t_k := t_k t * s\<rparr>"

record ZoomBehavior =
  scaleExtent :: "real \<times> real"

text \<open>
  Modelled from the spec: what \<^verbatim>\<open>d3-zoom\<close> does with a gesture. A zoom gesture asking
  for scale \<open>s\<close> at pointer position \<open>p\<close> clamps the scale to the extent and keeps the
  data point under the pointer where it is; a pan gesture translates and leaves the scale
  alone.
\<close>

definition d3_zoom_gesture :: "ZoomBehavior \<Rightarrow> Transform \<Rightarrow> real \<Rightarrow> real \<times> real \<Rightarrow> Transform" where
  "d3_zoom_gesture zb t s p =
     (let k' = max (fst (scaleExtent zb)) (min (snd (scaleExtent zb)) s);
          px = (fst p - t_x t) / t_k t;
          py = (snd p - t_y t) / t_k t
      in \<lparr>t_k = k', t_x = fst p - px * k', t_y = snd p - py * k'\<rparr>)"

definition d3_pan_gesture :: "Transform \<Rightarrow> real \<times> real \<Rightarrow> Transform" where
  "d3_pan_gesture t delta = t\<lparr>t_x := t_x t + fst delta, t_y := t_y t + snd delta\<rparr>"

text \<open>
  The state of \<^verbatim>\<open>App\<close>: whether \<^verbatim>\<open>svgRef.current\<close> holds the mounted element, the
  zoom behaviour in \<^verbatim>\<open>zoomRef.current\<close> (\<open>None\<close> for \<^verbatim>\<open>null\<close>), the React state
  \<^verbatim>\<open>k\<close>, the \<^verbatim>\<open>transform\<close> attribute of the group, and the transform the zoom
  behaviour keeps for the element.
\<close>

record app_state =
  svgRef :: bool
  zoomRef :: "ZoomBehavior option"
  zoom_k :: real
  g_transform :: "Transform option"
  svg_zoom :: Transform

definition init_state :: app_state where
  "init_state = \<lparr>svgRef = False, zoomRef = None, zoom_k = 1, g_transform = None,
     svg_zoom = zoomIdentity\<rparr>"

text \<open>Lines 51 to 54: the handler of the \<^verbatim>\<open>zoom\<close> event.\<close>

definition on_zoom :: "Transform \<Rightarrow> app_state \<Rightarrow> app_state" where
  "on_zoom tr st = st\<lparr>g_transform := Some tr, zoom_k := t_k tr\<rparr>"

text \<open>Lines 39 to 58: the effect that creates the zoom behaviour and attaches it.\<close>

definition zoom_setup :: "app_state \<Rightarrow> app_state" where
  "zoom_setup st =
     (if svgRef st then st\<lparr>zoomRef := Some \<lparr>scaleExtent = (minZoom, maxZoom)\<rparr>\<rparr> else st)"

text \<open>
  The state once the component is mounted and the effect has run: both references are
  set, and the behaviour carries the extent the effect gave it.
\<close>

definition mounted :: "app_state \<Rightarrow> bool" where
  "mounted st = (svgRef st \<and> zoomRef st = Some \<lparr>scaleExtent = (minZoom, maxZoom)\<rparr>)"

text \<open>
  A gesture on the element reaches the handler only through an attached behaviour, which
  stores the new transform and raises the \<^verbatim>\<open>zoom\<close> event with it.
\<close>

definition zoom_gesture :: "real \<Rightarrow> real \<times> real \<Rightarrow> app_state \<Rightarrow> app_state" where
  "zoom_gesture s p st =
     (case zoomRef st of
        None \<Rightarrow> st
      | Some zb \<Rightarrow>
          (let tr = d3_zoom_gesture zb (svg_zoom st) s p
           in on_zoom tr (st\<lparr>svg_zoom := tr\<rparr>)))"

definition pan_gesture :: "real \<times> real \<Rightarrow> app_state \<Rightarrow> app_state" where
  "pan_gesture delta st =
     (case zoomRef st of
        None \<Rightarrow> st
      | Some zb \<Rightarrow>
          (let tr = d3_pan_gesture (svg_zoom st) delta
           in on_zoom tr (st\<lparr>svg_zoom := tr\<rparr>)))"

text \<open>
  Lines 61 to 72: \<^verbatim>\<open>resetZoom\<close> asks for a transition of 250 milliseconds to
  \<^verbatim>\<open>zoomIdentity.scale(0.8)\<close>, and does nothing while either reference is \<^verbatim>\<open>null\<close>.
\<close>

record transition =
  duration :: nat
  target :: Transform

definition resetZoom :: "app_state \<Rightarrow> transition option" where
  "resetZoom st =
     (if zoomRef st \<noteq> None \<and> svgRef st
      then Some \<lparr>duration = 250, target = transform_scale zoomIdentity 0.8\<rparr>
      else None)"

text \<open>
  Modelled from the spec: a transition that runs to its end leaves the element at the
  target transform, published through the \<^verbatim>\<open>zoom\<close> handler like any other change.
\<close>

definition finish_transition :: "transition \<Rightarrow> app_state \<Rightarrow> app_state" where
  "finish_transition tr st = on_zoom (target tr) (st\<lparr>svg_zoom := target tr\<rparr>)"

definition reset :: "app_state \<Rightarrow> app_state" where
  "reset st = (case resetZoom st of None \<Rightarrow> st | Some tr \<Rightarrow> finish_transition tr st)"

section \<open>The scene renderer\<close>

text \<open>
  The elements of the scene graph. A text group is the \<^verbatim>\<open>g\<close> with its translation, the
  \<^verbatim>\<open>text\<close> inside with its scale, and the \<^verbatim>\<open>tspan\<close> lines, each with its \<^verbatim>\<open>dy\<close>
  attribute when it has one.
\<close>

record circle =
  c_id :: "string option"
  c_cx :: "real option"
  c_cy :: "real option"
  c_r :: real
  c_fill :: string
  c_fillOpacity :: real

record ('p, 'c) text_group =
  tg_translate :: "'p \<times> 'p"
  tg_scale :: "real \<times> real"
  tg_tspans :: "(string option \<times> 'c) list"

record point_out =
  po_circle :: circle
  po_tooltip :: "(real option, string option) text_group option"

datatype path_cmd = M real real | L real real

record path =
  p_d :: "path_cmd list"
  p_stroke :: string
  p_strokeWidth :: real
  p_strokeLinejoin :: string
  p_fill :: string

text \<open>
  Lines 195 to 231: the \<^verbatim>\<open>Point\<close> component. The colour map is the module constant
  \<^verbatim>\<open>cellColors\<close>, \<open>u\<close> is the \<^verbatim>\<open>unit\<close> property and \<open>tooltip\<close> the component's own
  state. \<open>None\<close> is the \<^verbatim>\<open>null\<close> the component returns to render nothing. A coordinate
  read past the end of its array is \<^verbatim>\<open>undefined\<close>, and stays \<open>None\<close> through the
  addition in the tooltip's translation.
\<close>

definition Point :: "dataset \<Rightarrow> (string \<rightharpoonup> string) \<Rightarrow> int \<Rightarrow> real \<Rightarrow> bool \<Rightarrow> point_out option" where
  "Point d colors i u tooltip =
     (if i < 0 \<or> i \<ge> int (length (cellid d)) then None
      else
        (let x = js_index (xumap d) i;
             y = js_index (yumap d) i;
             cid = js_index (cellid d) i;
             ctype = js_index (celltype d) i
         in Some \<lparr>po_circle =
                    \<lparr>c_id = cid, c_cx = x, c_cy = y,
                     c_r = (if tooltip then u * 2 else u),
                     c_fill = (case Option.bind ctype colors of
                                 Some c \<Rightarrow> c
                               | None \<Rightarrow> ''black''),
                     c_fillOpacity = 0.8\<rparr>,
                  po_tooltip =
                    (if tooltip
                     then Some \<lparr>tg_translate = (map_option (\<lambda>a. a + u * 2) x, y),
                                tg_scale = (u / 4, - u / 4),
                                tg_tspans = [(None, cid), (Some ''1.2em'', ctype)]\<rparr>
                     else None)\<rparr>))"

text \<open>
  Lines 205, 216 and 217: the tooltip state starts hidden, \<^verbatim>\<open>onMouseEnter\<close> sets it and
  \<^verbatim>\<open>onMouseLeave\<close> clears it. Every \<^verbatim>\<open>Point\<close> has its own state, kept here by index.
\<close>

datatype hover = MouseEnter | MouseLeave

fun setTooltip :: "hover \<Rightarrow> bool \<Rightarrow> bool" where
  "setTooltip MouseEnter _ = True"
| "setTooltip MouseLeave _ = False"

definition no_tooltips :: "int \<Rightarrow> bool" where
  "no_tooltips = (\<lambda>_. False)"

definition hover_point :: "hover \<Rightarrow> int \<Rightarrow> (int \<Rightarrow> bool) \<Rightarrow> (int \<Rightarrow> bool)" where
  "hover_point ev i tts = tts(i := setTooltip ev (tts i))"

text \<open>
  Lines 77 to 134: what \<^verbatim>\<open>App\<close> draws inside the \<^verbatim>\<open>svg\<close>: one \<^verbatim>\<open>Point\<close> for each
  index of \<^verbatim>\<open>data.cellid\<close>, the border, the two arrowheads and the axis labels. The
  content of an axis label is its prefix and the number printed after it. The legend and
  the reset button around the \<^verbatim>\<open>svg\<close> are not part of the scene.
\<close>

record scene =
  sc_viewBox :: "real \<times> real \<times> real \<times> real"
  sc_transform :: "real \<times> real"
  sc_points :: "point_out option list"
  sc_paths :: "path list"
  sc_labels :: "(real, string \<times> real) text_group list"

definition frame_paths :: "domain \<Rightarrow> real \<Rightarrow> path list" where
  "frame_paths dmn u =
     [\<lparr>p_d = [M (minX dmn) (maxY dmn), L (minX dmn) (minY dmn), L (maxX dmn) (minY dmn)],
       p_stroke = ''black'', p_strokeWidth = u / 2, p_strokeLinejoin = ''round'',
       p_fill = ''none''\<rparr>,
      \<lparr>p_d = [M (minX dmn) (maxY dmn + u), L (minX dmn - u / 2) (maxY dmn),
              L (minX dmn + u / 2) (maxY dmn), L (minX dmn) (maxY dmn + u)],
       p_stroke = ''black'', p_strokeWidth = u / 2, p_strokeLinejoin = ''round'',
       p_fill = ''black''\<rparr>,
      \<lparr>p_d = [M (maxX dmn + u) (minY dmn), L (maxX dmn) (minY dmn - u / 2),
              L (maxX dmn) (minY dmn + u / 2), L (maxX dmn + u) (minY dmn)],
       p_stroke = ''black'', p_strokeWidth = u / 2, p_strokeLinejoin = ''round'',
       p_fill = ''black''\<rparr>]"

definition axis_labels :: "domain \<Rightarrow> real \<Rightarrow> (real, string \<times> real) text_group list" where
  "axis_labels dmn u =
     [\<lparr>tg_translate = (minX dmn - u * 10, minY dmn - u * 5),
       tg_scale = (u / 4, - u / 4),
       tg_tspans = [(None, (''x='', minX dmn)), (Some ''1.2em'', (''y='', minY dmn))]\<rparr>,
      \<lparr>tg_translate = (minX dmn - u * 10, maxY dmn + u * 5),
       tg_scale = (u / 4, - u / 4),
       tg_tspans = [(None, (''y='', maxY dmn))]\<rparr>,
      \<lparr>tg_translate = (maxX dmn - u * 10, minY dmn - u * 5),
       tg_scale = (u / 4, - u / 4),
       tg_tspans = [(None, (''x='', maxX dmn))]\<rparr>]"

definition App ::
  "dataset \<Rightarrow> (string \<rightharpoonup> string) \<Rightarrow> domain \<Rightarrow> real \<Rightarrow> (int \<Rightarrow> bool) \<Rightarrow> scene" where
  "App d colors dmn zk tts =
     (let u = unit zk dmn
      in \<lparr>sc_viewBox = (minX dmn, minY dmn, maxX dmn - minX dmn, maxY dmn - minY dmn),
          sc_transform = (1, - 1),
          sc_points = map (\<lambda>i. Point d colors (int i) u (tts (int i))) [0..<length (cellid d)],
          sc_paths = frame_paths dmn u,
          sc_labels = axis_labels dmn u\<rparr>)"

text \<open>
  The axis labels of a scene, one for each \<^verbatim>\<open>tspan\<close> line: its content, the translation
  of its group and the scale of its \<^verbatim>\<open>text\<close> element. A position is outside the frame
  when it is beyond one of the four edges of the bounding box.
\<close>

definition labels_of :: "scene \<Rightarrow> ((string \<times> real) \<times> (real \<times> real) \<times> (real \<times> real)) list" where
  "labels_of sc =
     concat (map (\<lambda>g. map (\<lambda>ts. (snd ts, tg_translate g, tg_scale g)) (tg_tspans g))
       (sc_labels sc))"

definition outside_frame :: "domain \<Rightarrow> real \<times> real \<Rightarrow> bool" where
  "outside_frame dmn pos =
     (fst pos < minX dmn \<or> maxX dmn < fst pos \<or> snd pos < minY dmn \<or> maxY dmn < snd pos)"

section \<open>Sample inputs\<close>

text \<open>
  A dataset of two points, the empty dataset, the domain of the specification's scenario
  and a colour generator, for the concrete instances below.
\<close>

definition sample :: dataset where
  "sample = \<lparr>cellid = [''c0'', ''c1''], xumap = [10, 0], yumap = [20, 100],
     celltype = [''Bcell'', ''Total''], celltypes = [''Bcell'', ''Tcell'', ''Total'']\<rparr>"

definition empty_data :: dataset where
  "empty_data = \<lparr>cellid = [], xumap = [], yumap = [], celltype = [], celltypes = []\<rparr>"

definition square100 :: domain where
  "square100 = \<lparr>minX = 0, maxX = 100, minY = 0, maxY = 100\<rparr>"

definition rgb2 :: "nat \<Rightarrow> string" where
  "rgb2 n = (if n = 0 then ''#aa0000'' else ''#00bb00'')"

section \<open>Properties of the semantic scale function\<close>

lemma capK_eq: "capK = 75"
  by (simp add: capK_def maxZoom_def)

lemma unit_below_cap: "zk < capK \<Longrightarrow> unit zk dmn = baseUnit dmn / zk"
  by (simp add: unit_def transformFunc_def capK_def baseUnit_def)

lemma unit_from_cap: "capK \<le> zk \<Longrightarrow> unit zk dmn = baseUnit dmn / capK"
  by (simp add: unit_def transformFunc_def capK_def baseUnit_def)

lemma baseUnit_pos: "minY dmn < maxY dmn \<Longrightarrow> 0 < baseUnit dmn"
  by (simp add: baseUnit_def)

lemma unit_pos: "minY dmn < maxY dmn \<Longrightarrow> 0 < zk \<Longrightarrow> 0 < unit zk dmn"
  by (simp add: unit_def transformFunc_def maxZoom_def)

text \<open>
  Claim C1. On \<open>[minZoom, capK)\<close> the unit is \<open>baseUnit / k\<close>, on \<open>[capK, maxZoom]\<close> it is
  the constant \<open>baseUnit / capK\<close>, where \<open>capK = maxZoom * 0.75\<close> and
  \<open>baseUnit = (maxY - minY) / 250\<close>. With \<open>minZoom = 0.5\<close>, \<open>maxZoom = 100\<close> and a domain
  of height 100 the unit is 0.4 at \<open>k = 1\<close>, 0.008 at \<open>k = 50\<close> and \<open>0.4 / 75\<close> at
  \<open>k = 90\<close>.
\<close>

theorem unit_piecewise:
  "capK = maxZoom * 0.75
   \<and> baseUnit dmn = (maxY dmn - minY dmn) / 250
   \<and> (\<forall>zk. minZoom \<le> zk \<and> zk < capK \<longrightarrow> unit zk dmn = baseUnit dmn / zk)
   \<and> (\<forall>zk. capK \<le> zk \<and> zk \<le> maxZoom \<longrightarrow> unit zk dmn = baseUnit dmn / capK)
   \<and> minZoom = 0.5 \<and> maxZoom = 100
   \<and> (maxY dmn - minY dmn = 100 \<longrightarrow>
        unit 1 dmn = 0.4 \<and> unit 50 dmn = 0.008 \<and> unit 90 dmn = 0.4 / 75)"
proof -
  have scen: "maxY dmn - minY dmn = 100 \<longrightarrow>
        unit 1 dmn = 0.4 \<and> unit 50 dmn = 0.008 \<and> unit 90 dmn = 0.4 / 75"
    by (simp add: unit_def transformFunc_def maxZoom_def)
  show ?thesis
    using scen
    by (simp add: unit_below_cap unit_from_cap capK_def baseUnit_def minZoom_def maxZoom_def)
qed

theorem unit_piecewise_witness:
  "minZoom \<le> 1 \<and> 1 < capK \<and> capK \<le> 90 \<and> 90 \<le> maxZoom
   \<and> maxY square100 - minY square100 = 100
   \<and> unit 1 square100 = baseUnit square100 / 1
   \<and> unit 90 square100 = baseUnit square100 / capK
   \<and> unit 1 square100 = 0.4
   \<and> unit 50 square100 = 0.008
   \<and> unit 90 square100 = 0.4 / 75"
  using unit_piecewise [of square100]
  by (simp add: capK_eq minZoom_def maxZoom_def square100_def)

text \<open>
  Claim C2. For a domain with \<open>maxY > minY\<close> the unit does not increase as the zoom
  factor grows over \<open>[minZoom, maxZoom]\<close>, and it never falls below \<open>baseUnit / capK\<close>.
\<close>

theorem unit_antimono:
  assumes dmn: "minY dmn < maxY dmn"
    and lo: "minZoom \<le> k1" and le: "k1 \<le> k2" and hi: "k2 \<le> maxZoom"
  shows "unit k2 dmn \<le> unit k1 dmn \<and> baseUnit dmn / capK \<le> unit k2 dmn
         \<and> baseUnit dmn / capK \<le> unit k1 dmn"
proof -
  have b: "0 \<le> baseUnit dmn" using baseUnit_pos [OF dmn] by simp
  have k1: "0 < k1" using lo by (simp add: minZoom_def)
  have k2: "0 < k2" using k1 le by simp
  have low: "baseUnit dmn / capK \<le> unit zk dmn" if "0 < zk" for zk
  proof (cases "zk < capK")
    case True
    then have "baseUnit dmn / capK \<le> baseUnit dmn / zk"
      using b that by (intro divide_left_mono) (simp_all add: capK_eq)
    then show ?thesis using True by (simp add: unit_below_cap)
  next
    case False
    then show ?thesis by (simp add: unit_from_cap)
  qed
  have mono: "unit k2 dmn \<le> unit k1 dmn"
  proof (cases "k2 < capK")
    case True
    then have "k1 < capK" using le by simp
    moreover have "baseUnit dmn / k2 \<le> baseUnit dmn / k1"
      using b k1 le by (intro divide_left_mono) simp_all
    ultimately show ?thesis using True by (simp add: unit_below_cap)
  next
    case False
    then have "unit k2 dmn = baseUnit dmn / capK" by (simp add: unit_from_cap)
    then show ?thesis using low [OF k1] by simp
  qed
  show ?thesis using mono low [OF k1] low [OF k2] by simp
qed

theorem unit_antimono_witness:
  "minY square100 < maxY square100
   \<and> minZoom \<le> 50 \<and> (50::real) \<le> 90 \<and> 90 \<le> maxZoom
   \<and> unit 90 square100 \<le> unit 50 square100
   \<and> baseUnit square100 / capK \<le> unit 90 square100"
  using unit_antimono [of square100 50 90]
  by (simp add: minZoom_def maxZoom_def square100_def)

section \<open>Properties of the viewport controller\<close>

lemma mounted_zoom_setup: "svgRef st \<Longrightarrow> mounted (zoom_setup st)"
  by (simp add: mounted_def zoom_setup_def)

lemma mounted_refs: "mounted st \<Longrightarrow> svgRef st \<and> zoomRef st \<noteq> None"
  by (simp add: mounted_def)

lemma mounted_zoom_gesture: "mounted st \<Longrightarrow> mounted (zoom_gesture s p st)"
  by (simp add: mounted_def zoom_gesture_def on_zoom_def Let_def)

lemma mounted_pan_gesture: "mounted st \<Longrightarrow> mounted (pan_gesture delta st)"
  by (simp add: mounted_def pan_gesture_def on_zoom_def Let_def)

lemma pan_gesture_keeps_scale: "mounted st \<Longrightarrow> zoom_k (pan_gesture delta st) = t_k (svg_zoom st)"
  by (simp add: mounted_def pan_gesture_def on_zoom_def d3_pan_gesture_def Let_def)

text \<open>
  Claim C3. A zoom gesture asking for scale \<open>s\<close> leaves the transform with scale
  \<open>max minZoom (min maxZoom s)\<close>, where \<open>minZoom = 0.5\<close> and \<open>maxZoom = 100\<close>: a request
  below the range gives \<open>minZoom\<close>, one above it gives \<open>maxZoom\<close>, and the gesture is
  always applied. The clamp itself is the library's, as modelled above; the extent and
  the handler that publishes the scale are the program's.
\<close>

theorem zoom_gesture_clamps:
  assumes "mounted st"
  shows "zoom_k (zoom_gesture s p st) = max minZoom (min maxZoom s)
         \<and> t_k (svg_zoom (zoom_gesture s p st)) = max minZoom (min maxZoom s)
         \<and> map_option t_k (g_transform (zoom_gesture s p st)) = Some (max minZoom (min maxZoom s))
         \<and> max minZoom (min maxZoom s) = max 0.5 (min 100 s)
         \<and> (s < minZoom \<longrightarrow> zoom_k (zoom_gesture s p st) = minZoom)
         \<and> (maxZoom < s \<longrightarrow> zoom_k (zoom_gesture s p st) = maxZoom)
         \<and> (minZoom \<le> s \<and> s \<le> maxZoom \<longrightarrow> zoom_k (zoom_gesture s p st) = s)"
  using assms
  by (simp add: mounted_def zoom_gesture_def on_zoom_def d3_zoom_gesture_def Let_def
      minZoom_def maxZoom_def)

theorem zoom_gesture_clamps_witness:
  "mounted (zoom_setup (init_state\<lparr>svgRef := True\<rparr>))
   \<and> (200::real) > maxZoom \<and> (0.1::real) < minZoom \<and> minZoom \<le> 2 \<and> 2 \<le> maxZoom
   \<and> zoom_k (zoom_gesture 200 (0, 0) (zoom_setup (init_state\<lparr>svgRef := True\<rparr>))) = 100
   \<and> zoom_k (zoom_gesture 0.1 (0, 0) (zoom_setup (init_state\<lparr>svgRef := True\<rparr>))) = 0.5
   \<and> zoom_k (zoom_gesture 2 (0, 0) (zoom_setup (init_state\<lparr>svgRef := True\<rparr>))) = 2"
proof -
  have m: "mounted (zoom_setup (init_state\<lparr>svgRef := True\<rparr>))"
    by (simp add: mounted_def zoom_setup_def init_state_def)
  show ?thesis
    using m zoom_gesture_clamps [OF m, of 200 "(0, 0)"]
      zoom_gesture_clamps [OF m, of "0.1" "(0, 0)"]
      zoom_gesture_clamps [OF m, of 2 "(0, 0)"]
    by (simp add: minZoom_def maxZoom_def)
qed

lemma resetZoom_ready:
  "svgRef st \<Longrightarrow> zoomRef st \<noteq> None \<Longrightarrow>
     resetZoom st = Some \<lparr>duration = 250, target = \<lparr>t_k = 0.8, t_x = 0, t_y = 0\<rparr>\<rparr>"
  by (simp add: resetZoom_def transform_scale_def zoomIdentity_def)

lemma reset_ready:
  "svgRef st \<Longrightarrow> zoomRef st \<noteq> None \<Longrightarrow>
     reset st = st\<lparr>svg_zoom := \<lparr>t_k = 0.8, t_x = 0, t_y = 0\<rparr>,
                   g_transform := Some \<lparr>t_k = 0.8, t_x = 0, t_y = 0\<rparr>, zoom_k := 0.8\<rparr>"
  by (simp add: reset_def resetZoom_ready finish_transition_def on_zoom_def)

lemma mounted_reset: "mounted st \<Longrightarrow> mounted (reset st)"
  by (simp add: mounted_def reset_ready)

lemma resetZoom_unmounted: "zoomRef st = None \<or> \<not> svgRef st \<Longrightarrow> reset st = st"
  by (auto simp add: reset_def resetZoom_def)

text \<open>
  Claim C9. Once the component is mounted, so that both references \<^verbatim>\<open>resetZoom\<close> tests
  are set, a reset asks for a transition of 250 milliseconds to the transform with scale
  0.8 and no translation, whatever transform \<open>tr\<close> was in effect; the transition ends at
  that transform, and a second reset asks for the same transition and leaves the same
  state.
\<close>

theorem resetZoom_canonical:
  assumes svg: "svgRef st" and zb: "zoomRef st \<noteq> None"
  shows "resetZoom (st\<lparr>svg_zoom := tr\<rparr>)
           = Some \<lparr>duration = 250, target = \<lparr>t_k = 0.8, t_x = 0, t_y = 0\<rparr>\<rparr>
         \<and> svg_zoom (reset (st\<lparr>svg_zoom := tr\<rparr>)) = \<lparr>t_k = 0.8, t_x = 0, t_y = 0\<rparr>
         \<and> g_transform (reset (st\<lparr>svg_zoom := tr\<rparr>)) = Some \<lparr>t_k = 0.8, t_x = 0, t_y = 0\<rparr>
         \<and> zoom_k (reset (st\<lparr>svg_zoom := tr\<rparr>)) = 0.8
         \<and> resetZoom (reset (st\<lparr>svg_zoom := tr\<rparr>)) = resetZoom (st\<lparr>svg_zoom := tr\<rparr>)
         \<and> reset (reset (st\<lparr>svg_zoom := tr\<rparr>)) = reset (st\<lparr>svg_zoom := tr\<rparr>)"
proof -
  let ?s = "st\<lparr>svg_zoom := tr\<rparr>"
  have a: "svgRef ?s" and b: "zoomRef ?s \<noteq> None" using svg zb by simp_all
  have c: "svgRef (reset ?s)" and e: "zoomRef (reset ?s) \<noteq> None"
    using svg zb by (simp_all add: reset_ready [OF a b])
  have r1: "resetZoom ?s = Some \<lparr>duration = 250, target = \<lparr>t_k = 0.8, t_x = 0, t_y = 0\<rparr>\<rparr>"
    by (rule resetZoom_ready [OF a b])
  have r2: "resetZoom (reset ?s) = resetZoom ?s"
    by (simp only: resetZoom_ready [OF a b] resetZoom_ready [OF c e])
  have r3: "svg_zoom (reset ?s) = \<lparr>t_k = 0.8, t_x = 0, t_y = 0\<rparr>"
    and r4: "g_transform (reset ?s) = Some \<lparr>t_k = 0.8, t_x = 0, t_y = 0\<rparr>"
    and r5: "zoom_k (reset ?s) = 0.8"
    by (simp_all add: reset_ready [OF a b])
  have twice: "reset (reset ?s) = reset ?s"
    by (simp add: reset_ready [OF c e]) (simp add: reset_ready [OF a b])
  show ?thesis
    using r1 r2 r3 r4 r5 twice by blast
qed

theorem resetZoom_canonical_witness:
  "svgRef (zoom_setup (init_state\<lparr>svgRef := True\<rparr>))
   \<and> zoomRef (zoom_setup (init_state\<lparr>svgRef := True\<rparr>)) \<noteq> None
   \<and> svg_zoom (reset (zoom_setup (init_state\<lparr>svgRef := True\<rparr>)
                 \<lparr>svg_zoom := \<lparr>t_k = 40, t_x = 3, t_y = - 7\<rparr>\<rparr>))
       = \<lparr>t_k = 0.8, t_x = 0, t_y = 0\<rparr>
   \<and> resetZoom (zoom_setup (init_state\<lparr>svgRef := True\<rparr>)
                 \<lparr>svg_zoom := \<lparr>t_k = 40, t_x = 3, t_y = - 7\<rparr>\<rparr>)
       = Some \<lparr>duration = 250, target = \<lparr>t_k = 0.8, t_x = 0, t_y = 0\<rparr>\<rparr>"
proof -
  have a: "svgRef (zoom_setup (init_state\<lparr>svgRef := True\<rparr>))"
    and b: "zoomRef (zoom_setup (init_state\<lparr>svgRef := True\<rparr>)) \<noteq> None"
    by (simp_all add: zoom_setup_def init_state_def)
  show ?thesis
    using a b resetZoom_canonical [OF a b, of "\<lparr>t_k = 40, t_x = 3, t_y = - 7\<rparr>"] by simp
qed

section \<open>Properties of the domain computation\<close>

lemma foldl_Math_min: "foldl Math_min (Num a) (map Num xs) = Num (foldl min a xs)"
  by (induction xs arbitrary: a) simp_all

lemma foldl_Math_max: "foldl Math_max (Num a) (map Num xs) = Num (foldl max a xs)"
  by (induction xs arbitrary: a) simp_all

lemma foldl_min_Min: "foldl min (a::real) xs = Min (insert a (set xs))"
proof (induction xs arbitrary: a)
  case Nil
  then show ?case by simp
next
  case (Cons x xs)
  have "Min (insert (min a x) (set xs)) = Min (insert a (insert x (set xs)))"
    by (cases "set xs = {}") (simp_all add: min.assoc)
  then show ?case by (simp add: Cons.IH)
qed

lemma foldl_max_Max: "foldl max (a::real) xs = Max (insert a (set xs))"
proof (induction xs arbitrary: a)
  case Nil
  then show ?case by simp
next
  case (Cons x xs)
  have "Max (insert (max a x) (set xs)) = Max (insert a (insert x (set xs)))"
    by (cases "set xs = {}") (simp_all add: max.assoc)
  then show ?case by (simp add: Cons.IH)
qed

text \<open>On a dataset with points the four bounds are the bounding box of the coordinates.\<close>

lemma minX_of_nonempty: "xumap d \<noteq> [] \<Longrightarrow> minX_of d = Inr (Num (Min (set (xumap d))))"
  by (cases "xumap d")
    (simp_all add: minX_of_def js_index_def to_jsval_def foldl_Math_min foldl_min_Min)

lemma maxX_of_nonempty: "xumap d \<noteq> [] \<Longrightarrow> maxX_of d = Inr (Num (Max (set (xumap d))))"
  by (cases "xumap d")
    (simp_all add: maxX_of_def js_index_def to_jsval_def foldl_Math_max foldl_max_Max)

lemma minY_of_nonempty: "yumap d \<noteq> [] \<Longrightarrow> minY_of d = Inr (Num (Min (set (yumap d))))"
  by (cases "yumap d")
    (simp_all add: minY_of_def js_index_def to_jsval_def foldl_Math_min foldl_min_Min)

lemma maxY_of_nonempty: "yumap d \<noteq> [] \<Longrightarrow> maxY_of d = Inr (Num (Max (set (yumap d))))"
  by (cases "yumap d")
    (simp_all add: maxY_of_def js_index_def to_jsval_def foldl_Math_max foldl_max_Max)

text \<open>
  Claim C7, as stated, fails. It asks that empty coordinate arrays be caught by a guard
  and reported as a fatal error at startup. On the empty dataset every one of the four
  computations returns normally, with the value \<^verbatim>\<open>undefined\<close>: no error is raised.
\<close>

theorem domain_unguarded_empty:
  "minX_of empty_data = Inr Undefined \<and> maxX_of empty_data = Inr Undefined
   \<and> minY_of empty_data = Inr Undefined \<and> maxY_of empty_data = Inr Undefined"
  by (simp add: minX_of_def maxX_of_def minY_of_def maxY_of_def empty_data_def js_index_def
      to_jsval_def)

text \<open>
  Claim C7, amended. When the coordinate arrays are empty the domain computation is not
  guarded: each \<^verbatim>\<open>reduce\<close> gives back its initial value, element 0 of the empty array,
  so \<^verbatim>\<open>minX\<close>, \<^verbatim>\<open>maxX\<close>, \<^verbatim>\<open>minY\<close> and \<^verbatim>\<open>maxY\<close> are all \<^verbatim>\<open>undefined\<close> and no error is
  reported.
\<close>

theorem domain_of_empty_arrays:
  assumes "xumap d = []" and "yumap d = []"
  shows "minX_of d = Inr Undefined \<and> maxX_of d = Inr Undefined
         \<and> minY_of d = Inr Undefined \<and> maxY_of d = Inr Undefined"
  using assms
  by (simp add: minX_of_def maxX_of_def minY_of_def maxY_of_def js_index_def to_jsval_def)

theorem domain_of_empty_arrays_witness:
  "xumap empty_data = [] \<and> yumap empty_data = []
   \<and> minX_of empty_data = Inr Undefined \<and> maxX_of empty_data = Inr Undefined
   \<and> minY_of empty_data = Inr Undefined \<and> maxY_of empty_data = Inr Undefined"
proof -
  have x: "xumap empty_data = []" and y: "yumap empty_data = []"
    by (simp_all add: empty_data_def)
  show ?thesis using x y domain_of_empty_arrays [OF x y] by simp
qed

section \<open>Properties of the point marker\<close>

lemma js_index_in_range: "0 \<le> i \<Longrightarrow> i < int (length xs) \<Longrightarrow> js_index xs i = Some (xs ! nat i)"
  by (simp add: js_index_def)

lemma Point_in_range:
  assumes "0 \<le> i" "i < int (length (cellid d))"
  shows "Point d colors i u tt =
     Some \<lparr>po_circle =
              \<lparr>c_id = js_index (cellid d) i, c_cx = js_index (xumap d) i,
               c_cy = js_index (yumap d) i,
               c_r = (if tt then u * 2 else u),
               c_fill = (case Option.bind (js_index (celltype d) i) colors of
                           Some c \<Rightarrow> c | None \<Rightarrow> ''black''),
               c_fillOpacity = 0.8\<rparr>,
            po_tooltip =
              (if tt
               then Some \<lparr>tg_translate = (map_option (\<lambda>a. a + u * 2) (js_index (xumap d) i),
                                          js_index (yumap d) i),
                          tg_scale = (u / 4, - u / 4),
                          tg_tspans = [(None, js_index (cellid d) i),
                                       (Some ''1.2em'', js_index (celltype d) i)]\<rparr>
               else None)\<rparr>"
  using assms by (simp add: Point_def Let_def)

lemma hover_point_other: "j \<noteq> i \<Longrightarrow> hover_point ev i tts j = tts j"
  by (simp add: hover_point_def)

text \<open>
  Claim C4. For a valid index into parallel arrays the marker is a circle at the point's
  data coordinates, of radius \<open>unit\<close> while its tooltip is hidden and \<open>unit * 2\<close> while it
  is shown. Entering the point shows its tooltip and leaving hides it, so after an enter
  and a leave the tooltip is hidden and the radius is \<open>unit\<close> again; the centre is the
  same in every state.
\<close>

theorem Point_marker:
  assumes lo: "0 \<le> i" and hi: "i < int (length (cellid d))"
    and lx: "length (xumap d) = length (cellid d)"
    and ly: "length (yumap d) = length (cellid d)"
  shows "(\<exists>po. Point d colors i u tt = Some po
            \<and> c_cx (po_circle po) = Some (xumap d ! nat i)
            \<and> c_cy (po_circle po) = Some (yumap d ! nat i)
            \<and> c_r (po_circle po) = (if tt then u * 2 else u))
         \<and> hover_point MouseEnter i tts i
         \<and> \<not> hover_point MouseLeave i tts i
         \<and> \<not> hover_point MouseLeave i (hover_point MouseEnter i tts) i
         \<and> (\<exists>po. Point d colors i u (hover_point MouseLeave i (hover_point MouseEnter i tts) i)
                    = Some po
            \<and> c_cx (po_circle po) = Some (xumap d ! nat i)
            \<and> c_cy (po_circle po) = Some (yumap d ! nat i)
            \<and> c_r (po_circle po) = u)"
proof -
  have x: "js_index (xumap d) i = Some (xumap d ! nat i)"
    using lo hi lx by (simp add: js_index_in_range)
  have y: "js_index (yumap d) i = Some (yumap d ! nat i)"
    using lo hi ly by (simp add: js_index_in_range)
  show ?thesis
    by (simp add: Point_in_range [OF lo hi] x y hover_point_def)
qed

theorem Point_marker_witness:
  "(0::int) \<le> 0 \<and> 0 < int (length (cellid sample))
   \<and> length (xumap sample) = length (cellid sample)
   \<and> length (yumap sample) = length (cellid sample)
   \<and> (\<exists>po. Point sample Map.empty 0 (2 / 5) True = Some po
         \<and> c_cx (po_circle po) = Some 10 \<and> c_cy (po_circle po) = Some 20
         \<and> c_r (po_circle po) = 4 / 5)
   \<and> (\<exists>po. Point sample Map.empty 0 (2 / 5)
              (hover_point MouseLeave 0 (hover_point MouseEnter 0 no_tooltips) 0) = Some po
         \<and> c_cx (po_circle po) = Some 10 \<and> c_cy (po_circle po) = Some 20
         \<and> c_r (po_circle po) = 2 / 5)"
  using Point_marker [of 0 sample Map.empty "2 / 5" True no_tooltips]
  by (simp add: sample_def Point_def js_index_def hover_point_def no_tooltips_def)

text \<open>
  Claim C5. For an index outside the data arrays, negative or at least the length, the
  marker renders nothing, and nothing is raised: \<^const>\<open>Point\<close> returns \<open>None\<close>, the
  component's \<^verbatim>\<open>null\<close>. The range is that of \<^verbatim>\<open>data.cellid\<close>, the array the guard
  measures.
\<close>

theorem Point_out_of_range:
  "i < 0 \<or> int (length (cellid d)) \<le> i \<Longrightarrow> Point d colors i u tt = None"
  by (auto simp add: Point_def)

theorem Point_out_of_range_witness:
  "(- 1 < (0::int) \<or> int (length (cellid sample)) \<le> - 1)
   \<and> ((2::int) < 0 \<or> int (length (cellid sample)) \<le> 2)
   \<and> Point sample Map.empty (- 1) 1 False = None
   \<and> Point sample Map.empty 2 1 True = None"
  using Point_out_of_range [of "- 1" sample Map.empty 1 False]
    Point_out_of_range [of 2 sample Map.empty 1 True]
  by (simp add: sample_def)

lemma dom_cellColors_loop:
  "dom (cellColors_loop rgb n m cts) = dom m \<union> (set cts - {''Total''})"
  by (induction cts arbitrary: n m) auto

lemma dom_cellColors: "dom (cellColors rgb d) = set (celltypes d) - {''Total''}"
  by (simp add: cellColors_def dom_cellColors_loop)

text \<open>
  Claim C8. The colour map has an entry for each distinct category label of the dataset
  except \<^verbatim>\<open>Total\<close>. Every marker that is rendered is filled with the map's colour for
  the point's category when the map has one and with black otherwise, which covers
  \<^verbatim>\<open>Total\<close> and a category read past the end of its array; a missing colour never
  stops a valid index from rendering.
\<close>

theorem fill_color:
  "dom (cellColors rgb d) = set (celltypes d) - {''Total''}
   \<and> cellColors rgb d ''Total'' = None
   \<and> (\<forall>i po. Point d (cellColors rgb d) i u tt = Some po \<longrightarrow>
         c_fill (po_circle po) =
           (case js_index (celltype d) i of
              None \<Rightarrow> ''black''
            | Some ct \<Rightarrow> (case cellColors rgb d ct of None \<Rightarrow> ''black'' | Some c \<Rightarrow> c)))
   \<and> (\<forall>i. 0 \<le> i \<and> i < int (length (cellid d)) \<longrightarrow>
         (\<exists>po. Point d (cellColors rgb d) i u tt = Some po))"
proof -
  have total: "cellColors rgb d ''Total'' = None"
    using dom_cellColors [of rgb d] by blast
  have fill: "c_fill (po_circle po) =
           (case js_index (celltype d) i of
              None \<Rightarrow> ''black''
            | Some ct \<Rightarrow> (case cellColors rgb d ct of None \<Rightarrow> ''black'' | Some c \<Rightarrow> c))"
    if "Point d (cellColors rgb d) i u tt = Some po" for i po
    using that by (cases "js_index (celltype d) i") (auto simp: Point_def Let_def split: if_splits)
  have renders: "\<exists>po. Point d (cellColors rgb d) i u tt = Some po"
    if "0 \<le> i \<and> i < int (length (cellid d))" for i
    using that by (simp add: Point_in_range)
  show ?thesis using total fill renders dom_cellColors by blast
qed

theorem fill_color_witness:
  "(\<exists>po. Point sample (cellColors rgb2 sample) 0 1 False = Some po
         \<and> c_fill (po_circle po) = ''#aa0000'')
   \<and> (\<exists>po. Point sample (cellColors rgb2 sample) 1 1 False = Some po
         \<and> c_fill (po_circle po) = ''black'')
   \<and> (0::int) \<le> 1 \<and> 1 < int (length (cellid sample))
   \<and> dom (cellColors rgb2 sample) = {''Bcell'', ''Tcell''}"
  using fill_color [of rgb2 sample 1 False]
  by (auto simp add: sample_def Point_def js_index_def cellColors_def rgb2_def)

section \<open>Properties of the frame decorations\<close>

text \<open>
  Claim C6. The scene has four axis labels, reporting \<open>minX\<close>, \<open>minY\<close>, \<open>maxY\<close> and
  \<open>maxX\<close>; the first two are the two lines of one text element. Each sits at the corner
  of its extreme, moved by 10 units to the left and 5 units away from the frame, which is
  outside the frame when the unit is positive, and each is scaled by \<open>unit / 4\<close>
  horizontally and \<open>- unit / 4\<close> vertically.
\<close>

theorem axis_labels_four:
  "(let u = unit zk dmn in
      labels_of (App d colors dmn zk tts) =
        [((''x='', minX dmn), (minX dmn - u * 10, minY dmn - u * 5), (u / 4, - (u / 4))),
         ((''y='', minY dmn), (minX dmn - u * 10, minY dmn - u * 5), (u / 4, - (u / 4))),
         ((''y='', maxY dmn), (minX dmn - u * 10, maxY dmn + u * 5), (u / 4, - (u / 4))),
         ((''x='', maxX dmn), (maxX dmn - u * 10, minY dmn - u * 5), (u / 4, - (u / 4)))]
      \<and> (minY dmn < maxY dmn \<and> 0 < zk \<longrightarrow>
           list_all (\<lambda>l. outside_frame dmn (fst (snd l))) (labels_of (App d colors dmn zk tts))))"
proof -
  have "minY dmn < maxY dmn \<and> 0 < zk \<longrightarrow> 0 < unit zk dmn"
    by (simp add: unit_pos)
  then show ?thesis
    by (simp add: Let_def labels_of_def App_def axis_labels_def outside_frame_def)
qed

theorem axis_labels_four_witness:
  "minY square100 < maxY square100 \<and> (0::real) < 1
   \<and> labels_of (App sample Map.empty square100 1 no_tooltips) =
        [((''x='', 0), (- 4, - 2), (2 / 20, - (2 / 20))),
         ((''y='', 0), (- 4, - 2), (2 / 20, - (2 / 20))),
         ((''y='', 100), (- 4, 102), (2 / 20, - (2 / 20))),
         ((''x='', 100), (96, - 2), (2 / 20, - (2 / 20)))]
   \<and> list_all (\<lambda>l. outside_frame square100 (fst (snd l)))
        (labels_of (App sample Map.empty square100 1 no_tooltips))"
  using axis_labels_four [of 1 square100 sample Map.empty no_tooltips]
  by (simp add: Let_def unit_def transformFunc_def maxZoom_def square100_def outside_frame_def)

text \<open>
  Claim C10. At every zoom factor the border along the left and bottom edges and the two
  arrowheads are drawn with stroke width \<open>unit / 2\<close>, which is half the radius of every
  marker whose tooltip is hidden.
\<close>

theorem frame_stroke_width:
  "map p_strokeWidth (sc_paths (App d colors dmn zk tts))
     = [unit zk dmn / 2, unit zk dmn / 2, unit zk dmn / 2]
   \<and> map p_d (sc_paths (App d colors dmn zk tts))
     = [[M (minX dmn) (maxY dmn), L (minX dmn) (minY dmn), L (maxX dmn) (minY dmn)],
        [M (minX dmn) (maxY dmn + unit zk dmn), L (minX dmn - unit zk dmn / 2) (maxY dmn),
         L (minX dmn + unit zk dmn / 2) (maxY dmn), L (minX dmn) (maxY dmn + unit zk dmn)],
        [M (maxX dmn + unit zk dmn) (minY dmn), L (maxX dmn) (minY dmn - unit zk dmn / 2),
         L (maxX dmn) (minY dmn + unit zk dmn / 2), L (maxX dmn + unit zk dmn) (minY dmn)]]
   \<and> (\<forall>po \<in> set (sc_points (App d colors dmn zk no_tooltips)).
        \<forall>p \<in> set (sc_paths (App d colors dmn zk tts)).
          \<exists>c. po = Some c \<and> p_strokeWidth p = c_r (po_circle c) / 2)"
  by (auto simp add: App_def Let_def frame_paths_def Point_def no_tooltips_def)

theorem frame_stroke_width_witness:
  "set (sc_points (App sample Map.empty square100 50 no_tooltips)) \<noteq> {}
   \<and> set (sc_paths (App sample Map.empty square100 50 no_tooltips)) \<noteq> {}
   \<and> map p_strokeWidth (sc_paths (App sample Map.empty square100 50 no_tooltips))
      = [0.004, 0.004, 0.004]
   \<and> map (map_option (\<lambda>c. c_r (po_circle c)))
        (sc_points (App sample Map.empty square100 50 no_tooltips))
      = [Some 0.008, Some 0.008]"
  using frame_stroke_width [of sample Map.empty square100 50 no_tooltips]
  by (simp add: App_def Let_def frame_paths_def Point_def no_tooltips_def sample_def
      unit_def transformFunc_def maxZoom_def square100_def upt_rec [of 0] upt_rec [of 1])

end
